theory Spec2Isabelle
  imports Main "HOL-Library.Word"
begin

unbundle bit_operations_syntax

section \<open>Data model (main.go, lines 25-63)\<close>

text \<open>
  A Go \<^verbatim>\<open>string\<close> is a sequence of bytes, and so is an Isabelle \<open>string\<close>; text outside
  ASCII is written as its UTF-8 bytes. A \<^verbatim>\<open>float64\<close> is its IEEE 754 binary64 bit pattern:
  bit 63 is the sign, bits 62..52 the biased exponent, bits 51..0 the fraction. Copying a
  float64 copies the pattern, so equality of patterns is identity of the stored value.
\<close>

type_synonym float64 = "64 word"

record LocationInfo =
  Latitude :: float64
  Longitude :: float64
  Country :: string
  Region :: string
  City :: string
  PlaceName :: string

text \<open>\<^verbatim>\<open>type Context struct { ID, Text string }\<close>\<close>

record Context =
  ID :: string
  Text :: string

text \<open>
  \<^verbatim>\<open>type Feature struct { Type, PlaceName string; Center []float64; Context []Context }\<close>.
  The fields \<^verbatim>\<open>Type\<close>, \<^verbatim>\<open>PlaceName\<close> and \<^verbatim>\<open>Context\<close> carry the prefix \<open>Feature\<close> here, since
  \<open>LocationInfo\<close> and \<open>GeocodeResponse\<close> have fields of the same names.
\<close>

record Feature =
  FeatureType :: string
  FeaturePlaceName :: string
  Center :: "float64 list"
  FeatureContext :: "Context list"

record GeocodeResponse =
  Type :: string
  Features :: "Feature list"

record Geometry =
  Coordinates :: "float64 list list"

record Route =
  Distance :: float64
  Duration :: float64
  Geometry :: Geometry

record DirectionsResponse =
  Routes :: "Route list"

section \<open>Errors, panics and the outside world\<close>

text \<open>
  \<^verbatim>\<open>fmt.Errorf\<close> with a format that has no \<^verbatim>\<open>%w\<close> verb returns \<^verbatim>\<open>errors.New\<close> of the formatted
  text, a \<^verbatim>\<open>*errors.errorString\<close>; with one \<^verbatim>\<open>%w\<close> it returns a \<^verbatim>\<open>*fmt.wrapError\<close> that keeps the
  wrapped error beside the text. These are the two shapes of error value the function can
  build; main.go uses \<^verbatim>\<open>%v\<close> only.
\<close>

datatype go_error = errorString string | wrapError string go_error

fun Error :: "go_error \<Rightarrow> string" where
  "Error (errorString s) = s"
| "Error (wrapError s e) = s"

text \<open>A run-time panic of an index expression \<^verbatim>\<open>xs[i]\<close> with \<^verbatim>\<open>i >= len(xs)\<close>.\<close>

datatype panic = IndexOutOfRange nat nat

text \<open>
  What a call does: it panics, it returns a non-nil error (with zero values beside it), or
  it returns its values with a nil error.
\<close>

datatype 'a outcome = Panicked panic | Failed go_error | Returned 'a

text \<open>
  The three library calls between building the URL and looking at the decoded response
  (\<^verbatim>\<open>http.Get\<close>, \<^verbatim>\<open>io.ReadAll\<close>, \<^verbatim>\<open>json.Unmarshal\<close>) are the outside world: for a URL, either
  one of them returns an error, given by its \<^verbatim>\<open>Error()\<close> text, or the body is decoded into
  the response struct.
\<close>

datatype 'r exchange =
    GetError string
  | ReadAllError string
  | UnmarshalError string
  | Decoded 'r

section \<open>Library functions used by main.go\<close>

text \<open>\<^verbatim>\<open>strings.HasPrefix(s, prefix)\<close>: \<^verbatim>\<open>len(s) >= len(prefix) && s[:len(prefix)] == prefix\<close>.\<close>

definition HasPrefix :: "string \<Rightarrow> string \<Rightarrow> bool" where
  "HasPrefix s prefix \<longleftrightarrow> length prefix \<le> length s \<and> take (length prefix) s = prefix"

text \<open>
  \<^verbatim>\<open>url.QueryEscape\<close> is \<^verbatim>\<open>escape(s, encodeQueryComponent)\<close>. In that mode \<^verbatim>\<open>shouldEscape\<close> keeps
  the ASCII letters and digits and the four marks \<^verbatim>\<open>- _ . ~\<close>, and escapes every other byte;
  \<^verbatim>\<open>escape\<close> writes a space as \<^verbatim>\<open>+\<close> and any other escaped byte as \<^verbatim>\<open>%\<close> and two upper-case
  hexadecimal digits.
\<close>

definition shouldEscape :: "char \<Rightarrow> bool" where
  "shouldEscape c =
     (let n = (of_char c :: nat) in
      if (97 \<le> n \<and> n \<le> 122) \<or> (65 \<le> n \<and> n \<le> 90) \<or> (48 \<le> n \<and> n \<le> 57) then False
      else if c = CHR ''-'' \<or> c = CHR ''_'' \<or> c = CHR ''.'' \<or> c = CHR ''~'' then False
      else True)"

definition upperhex :: string where
  "upperhex = ''0123456789ABCDEF''"

definition escape_byte :: "char \<Rightarrow> string" where
  "escape_byte c =
     (if c = CHR '' '' then ''+''
      else if shouldEscape c then
        [CHR ''%'', upperhex ! ((of_char c :: nat) div 16), upperhex ! ((of_char c :: nat) mod 16)]
      else [c])"

definition QueryEscape :: "string \<Rightarrow> string" where
  "QueryEscape s = concat (map escape_byte s)"

section \<open>float64 and its formatting\<close>

text \<open>The three fields of the bit pattern.\<close>

definition f64_sign :: "float64 \<Rightarrow> bool" where
  "f64_sign x = bit x 63"

definition f64_exponent :: "float64 \<Rightarrow> nat" where
  "f64_exponent x = unat (drop_bit 52 x AND 0x7FF)"

definition f64_fraction :: "float64 \<Rightarrow> nat" where
  "f64_fraction x = unat (x AND 0xFFFFFFFFFFFFF)"

text \<open>\<^verbatim>\<open>math.IsNaN\<close> and \<^verbatim>\<open>math.IsInf(x, 0)\<close>: the exponent field is all ones.\<close>

definition IsNaN :: "float64 \<Rightarrow> bool" where
  "IsNaN x \<longleftrightarrow> f64_exponent x = 2047 \<and> f64_fraction x \<noteq> 0"

definition IsInf :: "float64 \<Rightarrow> bool" where
  "IsInf x \<longleftrightarrow> f64_exponent x = 2047 \<and> f64_fraction x = 0"

text \<open>
  A finite float64 has the magnitude \<open>f64_mant x * 2 ^ f64_pow x\<close>: subnormal when the
  exponent field is zero, with the implicit leading bit otherwise.
\<close>

definition f64_mant :: "float64 \<Rightarrow> nat" where
  "f64_mant x = (if f64_exponent x = 0 then f64_fraction x else 2 ^ 52 + f64_fraction x)"

definition f64_pow :: "float64 \<Rightarrow> int" where
  "f64_pow x = (if f64_exponent x = 0 then - 1074 else int (f64_exponent x) - 1075)"

text \<open>
  The value of a finite float64 times \<open>2 ^ 1074\<close>, an integer; it orders the finite values.
\<close>

definition f64_scaled :: "float64 \<Rightarrow> int" where
  "f64_scaled x =
     (let m = int (f64_mant x * 2 ^ nat (f64_pow x + 1074))
      in if f64_sign x then - m else m)"

text \<open>Go's \<^verbatim>\<open>x <= y\<close> on float64: false when either side is NaN.\<close>

definition f64_le :: "float64 \<Rightarrow> float64 \<Rightarrow> bool" where
  "f64_le x y \<longleftrightarrow>
     \<not> IsNaN x \<and> \<not> IsNaN y \<and>
     (if IsInf x then f64_sign x \<or> (IsInf y \<and> \<not> f64_sign y)
      else if IsInf y then \<not> f64_sign y
      else f64_scaled x \<le> f64_scaled y)"

text \<open>
  The verb \<^verbatim>\<open>%.6f\<close> of \<^verbatim>\<open>fmt.Sprintf\<close> is \<^verbatim>\<open>strconv.AppendFloat(x, 'f', 6, 64)\<close>: the exact
  decimal expansion of the value, rounded to six digits after the point, to nearest and
  to even on a tie; \<^verbatim>\<open>NaN\<close>, \<^verbatim>\<open>+Inf\<close> and \<^verbatim>\<open>-Inf\<close> for the three kinds of non-finite value. The
  sign is that of the bit pattern (so negative zero prints \<^verbatim>\<open>-0.000000\<close>).
\<close>

definition round_half_even :: "nat \<Rightarrow> nat \<Rightarrow> nat" where
  "round_half_even n d =
     (let q = n div d; r = n mod d
      in if d < 2 * r \<or> (2 * r = d \<and> odd q) then q + 1 else q)"

text \<open>The magnitude in millionths, rounded.\<close>

definition f64_micro :: "float64 \<Rightarrow> nat" where
  "f64_micro x =
     (if 0 \<le> f64_pow x then f64_mant x * 2 ^ nat (f64_pow x) * 10 ^ 6
      else round_half_even (f64_mant x * 10 ^ 6) (2 ^ nat (- f64_pow x)))"

definition digit :: "nat \<Rightarrow> char" where
  "digit d = ''0123456789'' ! d"

function itoa :: "nat \<Rightarrow> string" where
  "itoa n = (if n < 10 then [digit n] else itoa (n div 10) @ [digit (n mod 10)])"
  by pat_completeness auto
termination
  by (relation "measure id") auto

declare itoa.simps [simp del]

definition frac6 :: "nat \<Rightarrow> string" where
  "frac6 n = [digit (n div 100000 mod 10), digit (n div 10000 mod 10), digit (n div 1000 mod 10),
              digit (n div 100 mod 10), digit (n div 10 mod 10), digit (n mod 10)]"

definition fmt_f6 :: "float64 \<Rightarrow> string" where
  "fmt_f6 x =
     (if IsNaN x then ''NaN''
      else if IsInf x then (if f64_sign x then ''-Inf'' else ''+Inf'')
      else (if f64_sign x then ''-'' else '''') @ itoa (f64_micro x div 10 ^ 6) @ ''.''
           @ frac6 (f64_micro x mod 10 ^ 6))"

section \<open>geocodeAddress (main.go, lines 65-113)\<close>

text \<open>The sentinel of lines 97-99 (Ukrainian for "unknown"), 16 bytes of UTF-8.\<close>

definition unknown :: string where
  "unknown = [CHR 0xD0, CHR 0x9D, CHR 0xD0, CHR 0xB5, CHR 0xD0, CHR 0xB2, CHR 0xD1, CHR 0x96,
              CHR 0xD0, CHR 0xB4, CHR 0xD0, CHR 0xBE, CHR 0xD0, CHR 0xBC, CHR 0xD0, CHR 0xBE]"

text \<open>The message prefixes and messages of the \<^verbatim>\<open>fmt.Errorf\<close> calls, as UTF-8 bytes (the
  source texts are Ukrainian; the comments give them in English).\<close>

definition http_request_msg :: string where
  \<comment> \<open>lines 72 and 124, "HTTP request error: "\<close>
  "http_request_msg =
     [CHR 0xD0, CHR 0xBF, CHR 0xD0, CHR 0xBE, CHR 0xD0, CHR 0xBC, CHR 0xD0, CHR 0xB8,
      CHR 0xD0, CHR 0xBB, CHR 0xD0, CHR 0xBA, CHR 0xD0, CHR 0xB0, CHR 0x20, CHR 0x48,
      CHR 0x54, CHR 0x54, CHR 0x50, CHR 0x20, CHR 0xD0, CHR 0xB7, CHR 0xD0, CHR 0xB0,
      CHR 0xD0, CHR 0xBF, CHR 0xD0, CHR 0xB8, CHR 0xD1, CHR 0x82, CHR 0xD1, CHR 0x83,
      CHR 0x3A, CHR 0x20]"

definition read_response_msg :: string where
  \<comment> \<open>lines 78 and 130, "error reading the response: "\<close>
  "read_response_msg =
     [CHR 0xD0, CHR 0xBF, CHR 0xD0, CHR 0xBE, CHR 0xD0, CHR 0xBC, CHR 0xD0, CHR 0xB8,
      CHR 0xD0, CHR 0xBB, CHR 0xD0, CHR 0xBA, CHR 0xD0, CHR 0xB0, CHR 0x20, CHR 0xD1,
      CHR 0x87, CHR 0xD0, CHR 0xB8, CHR 0xD1, CHR 0x82, CHR 0xD0, CHR 0xB0, CHR 0xD0,
      CHR 0xBD, CHR 0xD0, CHR 0xBD, CHR 0xD1, CHR 0x8F, CHR 0x20, CHR 0xD0, CHR 0xB2,
      CHR 0xD1, CHR 0x96, CHR 0xD0, CHR 0xB4, CHR 0xD0, CHR 0xBF, CHR 0xD0, CHR 0xBE,
      CHR 0xD0, CHR 0xB2, CHR 0xD1, CHR 0x96, CHR 0xD0, CHR 0xB4, CHR 0xD1, CHR 0x96,
      CHR 0x3A, CHR 0x20]"

definition parse_json_msg :: string where
  \<comment> \<open>lines 84 and 136, "JSON parsing error: "\<close>
  "parse_json_msg =
     [CHR 0xD0, CHR 0xBF, CHR 0xD0, CHR 0xBE, CHR 0xD0, CHR 0xBC, CHR 0xD0, CHR 0xB8,
      CHR 0xD0, CHR 0xBB, CHR 0xD0, CHR 0xBA, CHR 0xD0, CHR 0xB0, CHR 0x20, CHR 0xD0,
      CHR 0xBF, CHR 0xD0, CHR 0xB0, CHR 0xD1, CHR 0x80, CHR 0xD1, CHR 0x81, CHR 0xD0,
      CHR 0xB8, CHR 0xD0, CHR 0xBD, CHR 0xD0, CHR 0xB3, CHR 0xD1, CHR 0x83, CHR 0x20,
      CHR 0x4A, CHR 0x53, CHR 0x4F, CHR 0x4E, CHR 0x3A, CHR 0x20]"

definition address_not_found_msg :: string where
  \<comment> \<open>line 88, "address not found"\<close>
  "address_not_found_msg =
     [CHR 0xD0, CHR 0xB0, CHR 0xD0, CHR 0xB4, CHR 0xD1, CHR 0x80, CHR 0xD0, CHR 0xB5,
      CHR 0xD1, CHR 0x81, CHR 0xD1, CHR 0x83, CHR 0x20, CHR 0xD0, CHR 0xBD, CHR 0xD0,
      CHR 0xB5, CHR 0x20, CHR 0xD0, CHR 0xB7, CHR 0xD0, CHR 0xBD, CHR 0xD0, CHR 0xB0,
      CHR 0xD0, CHR 0xB9, CHR 0xD0, CHR 0xB4, CHR 0xD0, CHR 0xB5, CHR 0xD0, CHR 0xBD,
      CHR 0xD0, CHR 0xBE]"

definition route_not_found_msg :: string where
  \<comment> \<open>line 140, "route not found"\<close>
  "route_not_found_msg =
     [CHR 0xD0, CHR 0xBC, CHR 0xD0, CHR 0xB0, CHR 0xD1, CHR 0x80, CHR 0xD1, CHR 0x88,
      CHR 0xD1, CHR 0x80, CHR 0xD1, CHR 0x83, CHR 0xD1, CHR 0x82, CHR 0x20, CHR 0xD0,
      CHR 0xBD, CHR 0xD0, CHR 0xB5, CHR 0x20, CHR 0xD0, CHR 0xB7, CHR 0xD0, CHR 0xBD,
      CHR 0xD0, CHR 0xB0, CHR 0xD0, CHR 0xB9, CHR 0xD0, CHR 0xB4, CHR 0xD0, CHR 0xB5,
      CHR 0xD0, CHR 0xBD, CHR 0xD0, CHR 0xBE]"

text \<open>\<^verbatim>\<open>fmt.Errorf(prefix + "%v", err)\<close>: an \<open>errorString\<close> of the prefix and \<^verbatim>\<open>err.Error()\<close>.\<close>

definition Errorf_v :: "string \<Rightarrow> string \<Rightarrow> go_error" where
  "Errorf_v prefix cause = errorString (prefix @ cause)"

text \<open>Lines 66-68: \<^verbatim>\<open>fmt.Sprintf("%s%s.json?access_token=%s", baseURL, encodedAddress, accessToken)\<close>.\<close>

definition geocode_baseURL :: string where
  "geocode_baseURL = ''https://api.mapbox.com/geocoding/v5/mapbox.places/''"

definition geocode_apiURL :: "string \<Rightarrow> string \<Rightarrow> string" where
  "geocode_apiURL address accessToken =
     (let encodedAddress = QueryEscape address
      in geocode_baseURL @ encodedAddress @ ''.json?access_token='' @ accessToken)"

text \<open>One pass of the loop body of lines 102-110 over a context entry.\<close>

definition assign_context :: "Context \<Rightarrow> LocationInfo \<Rightarrow> LocationInfo" where
  "assign_context ctx location =
     (if HasPrefix (ID ctx) ''country'' then location\<lparr>Country := Text ctx\<rparr>
      else if HasPrefix (ID ctx) ''region'' then location\<lparr>Region := Text ctx\<rparr>
      else if HasPrefix (ID ctx) ''place'' then location\<lparr>City := Text ctx\<rparr>
      else location)"

text \<open>The loop \<^verbatim>\<open>for _, ctx := range feature.Context\<close>, front to back.\<close>

fun scan_context :: "Context list \<Rightarrow> LocationInfo \<Rightarrow> LocationInfo" where
  "scan_context [] location = location"
| "scan_context (ctx # rest) location = scan_context rest (assign_context ctx location)"

text \<open>
  Lines 87-112, on the decoded response. The struct literal of lines 93-100 evaluates
  \<^verbatim>\<open>feature.Center[0]\<close> and then \<^verbatim>\<open>feature.Center[1]\<close>; each index expression panics when the
  slice is too short.
\<close>

definition locate :: "GeocodeResponse \<Rightarrow> LocationInfo outcome" where
  "locate geocodeResp =
     (if length (Features geocodeResp) = 0 then Failed (errorString address_not_found_msg)
      else
        let feature = Features geocodeResp ! 0 in
        if length (Center feature) \<le> 0 then Panicked (IndexOutOfRange 0 (length (Center feature)))
        else if length (Center feature) \<le> 1 then Panicked (IndexOutOfRange 1 (length (Center feature)))
        else
          Returned (scan_context (FeatureContext feature)
            \<lparr>Latitude = Center feature ! 1,
             Longitude = Center feature ! 0,
             Country = unknown,
             Region = unknown,
             City = unknown,
             PlaceName = FeaturePlaceName feature\<rparr>))"

text \<open>
  The whole function. \<open>world\<close> answers the request for a URL (see \<open>exchange\<close>); the three
  early returns are lines 71-73, 77-79 and 83-85.
\<close>

definition geocodeAddress ::
  "(string \<Rightarrow> GeocodeResponse exchange) \<Rightarrow> string \<Rightarrow> string \<Rightarrow> LocationInfo outcome" where
  "geocodeAddress world address accessToken =
     (case world (geocode_apiURL address accessToken) of
        GetError err \<Rightarrow> Failed (Errorf_v http_request_msg err)
      | ReadAllError err \<Rightarrow> Failed (Errorf_v read_response_msg err)
      | UnmarshalError err \<Rightarrow> Failed (Errorf_v parse_json_msg err)
      | Decoded geocodeResp \<Rightarrow> locate geocodeResp)"

section \<open>getDistance (main.go, lines 115-147)\<close>

text \<open>
  Lines 116-120. The parameter \<^verbatim>\<open>end\<close> of the source is \<open>endp\<close> here. Both parameters are
  pointers that the function dereferences at once; they are taken as the structs they
  point to.
\<close>

definition directions_baseURL :: string where
  "directions_baseURL = ''https://api.mapbox.com/directions/v5/mapbox/driving/''"

definition directions_coordinates :: "LocationInfo \<Rightarrow> LocationInfo \<Rightarrow> string" where
  "directions_coordinates start endp =
     fmt_f6 (Longitude start) @ '','' @ fmt_f6 (Latitude start) @ '';'' @
     fmt_f6 (Longitude endp) @ '','' @ fmt_f6 (Latitude endp)"

definition directions_apiURL :: "LocationInfo \<Rightarrow> LocationInfo \<Rightarrow> string \<Rightarrow> string" where
  "directions_apiURL start endp accessToken =
     (let coordinates = directions_coordinates start endp
      in directions_baseURL @ coordinates @ ''?access_token='' @ accessToken
           @ ''&geometries=geojson'')"

definition getDistance ::
  "(string \<Rightarrow> DirectionsResponse exchange) \<Rightarrow> LocationInfo \<Rightarrow> LocationInfo \<Rightarrow> string
     \<Rightarrow> (float64 \<times> float64) outcome" where
  "getDistance world start endp accessToken =
     (case world (directions_apiURL start endp accessToken) of
        GetError err \<Rightarrow> Failed (Errorf_v http_request_msg err)
      | ReadAllError err \<Rightarrow> Failed (Errorf_v read_response_msg err)
      | UnmarshalError err \<Rightarrow> Failed (Errorf_v parse_json_msg err)
      | Decoded directionsResp \<Rightarrow>
          if length (Routes directionsResp) = 0 then Failed (errorString route_not_found_msg)
          else
            let distance = Distance (Routes directionsResp ! 0);
                duration = Duration (Routes directionsResp ! 0)
            in Returned (distance, duration))"

section \<open>json.Unmarshal into GeocodeResponse (main.go, line 82)\<close>

text \<open>
  A well-formed JSON text, as the decoder of \<^verbatim>\<open>encoding/json\<close> reads it: an object keeps its
  members in the order of the text, repeated keys included; a string is its decoded
  bytes; a number is its literal together with the float64 that \<^verbatim>\<open>strconv.ParseFloat\<close>
  returns for the literal, or \<open>None\<close> when the literal is out of the range of float64.
\<close>

datatype json =
    JNull
  | JBool bool
  | JNumber string "float64 option"
  | JString string
  | JArray "json list"
  | JObject "(string \<times> json) list"

text \<open>
  The nesting depth of a text: the number of arrays and objects open at its deepest point.
  The scanner of \<^verbatim>\<open>encoding/json\<close> checks the whole text before anything is decoded, and
  rejects a text nested deeper than \<^verbatim>\<open>maxNestingDepth = 10000\<close> with the syntax error
  \<^verbatim>\<open>exceeded max depth\<close>, wherever the deep value stands.
\<close>

fun nesting :: "json \<Rightarrow> nat" where
  "nesting (JArray js) = Suc (foldr (\<lambda>j. max (nesting j)) js 0)"
| "nesting (JObject ms) = Suc (foldr (\<lambda>m. max (nesting (snd m))) ms 0)"
| "nesting j = 0"

definition maxNestingDepth :: nat where
  "maxNestingDepth = 10000"

text \<open>
  The errors of \<^verbatim>\<open>json.Unmarshal\<close> on a well-formed text and a pointer to a struct: a
  \<^verbatim>\<open>*json.SyntaxError\<close> with its message, for a text nested too deep; otherwise a
  \<^verbatim>\<open>*json.UnmarshalTypeError\<close>, the JSON value and the Go type that cannot hold it, of which
  the first one found is the one returned.
\<close>

datatype unmarshal_error = SyntaxError string | UnmarshalTypeError string string

text \<open>
  The result of decoding into a Go value. \<open>Unmodelled\<close> marks the one case left out: a
  non-empty array decoded into a slice that an earlier member of the same object has
  already filled; the decoder then reuses the old elements as far as the capacity of the
  slice goes, which no value of the model records.
\<close>

datatype 'a decoding = Decodes 'a | Fails unmarshal_error | Unmodelled

fun and_then :: "'a decoding \<Rightarrow> ('a \<Rightarrow> 'b decoding) \<Rightarrow> 'b decoding" where
  "and_then (Decodes v) f = f v"
| "and_then (Fails e) f = Fails e"
| "and_then Unmodelled f = Unmodelled"

fun json_value_name :: "json \<Rightarrow> string" where
  "json_value_name JNull = ''null''"
| "json_value_name (JBool b) = ''bool''"
| "json_value_name (JNumber lit x) = ''number''"
| "json_value_name (JString s) = ''string''"
| "json_value_name (JArray js) = ''array''"
| "json_value_name (JObject ms) = ''object''"

text \<open>
  Into a \<^verbatim>\<open>string\<close> or a \<^verbatim>\<open>float64\<close>: \<^verbatim>\<open>null\<close> leaves the value as it is, a JSON value of the right
  kind replaces it, any other is a type error.
\<close>

definition dec_string :: "string \<Rightarrow> json \<Rightarrow> string decoding" where
  "dec_string cur j =
     (case j of
        JNull \<Rightarrow> Decodes cur
      | JString s \<Rightarrow> Decodes s
      | _ \<Rightarrow> Fails (UnmarshalTypeError (json_value_name j) ''string''))"

text \<open>
  For a number out of the range of float64 the error names the value \<^verbatim>\<open>number\<close> followed by
  a space and the literal.
\<close>

definition dec_float64 :: "float64 \<Rightarrow> json \<Rightarrow> float64 decoding" where
  "dec_float64 cur j =
     (case j of
        JNull \<Rightarrow> Decodes cur
      | JNumber lit (Some x) \<Rightarrow> Decodes x
      | JNumber lit None \<Rightarrow> Fails (UnmarshalTypeError (''number '' @ lit) ''float64'')
      | _ \<Rightarrow> Fails (UnmarshalTypeError (json_value_name j) ''float64''))"

text \<open>
  Into a slice: \<^verbatim>\<open>null\<close> sets it to nil; an array resets its length to zero and appends the
  elements, each decoded into a fresh zero value when the slice was empty.
\<close>

fun dec_elements :: "('a \<Rightarrow> json \<Rightarrow> 'a decoding) \<Rightarrow> 'a \<Rightarrow> json list \<Rightarrow> 'a list decoding" where
  "dec_elements dec zero [] = Decodes []"
| "dec_elements dec zero (j # js) =
     and_then (dec zero j) (\<lambda>v. and_then (dec_elements dec zero js) (\<lambda>vs. Decodes (v # vs)))"

definition dec_slice ::
  "('a \<Rightarrow> json \<Rightarrow> 'a decoding) \<Rightarrow> 'a \<Rightarrow> string \<Rightarrow> 'a list \<Rightarrow> json \<Rightarrow> 'a list decoding" where
  "dec_slice dec zero ty cur j =
     (case j of
        JNull \<Rightarrow> Decodes []
      | JArray js \<Rightarrow>
          if js = [] then Decodes []
          else if cur \<noteq> [] then Unmodelled
          else dec_elements dec zero js
      | _ \<Rightarrow> Fails (UnmarshalTypeError (json_value_name j) ty))"

text \<open>
  A key of an object names a struct field when it is the field's JSON name, or equals it
  under Unicode simple case folding (\<^verbatim>\<open>bytes.EqualFold\<close>). The field names of main.go are
  lower-case ASCII, and the only characters outside ASCII that fold to an ASCII letter
  are U+017F (long s, bytes C5 BF) and U+212A (Kelvin sign, bytes E2 84 AA); \<open>foldName\<close>
  folds those and the ASCII letters to upper case and leaves every other byte.
\<close>

definition upper_ascii :: "char \<Rightarrow> char" where
  "upper_ascii c =
     (let n = (of_char c :: nat)
      in if 97 \<le> n \<and> n \<le> 122 then ''ABCDEFGHIJKLMNOPQRSTUVWXYZ'' ! (n - 97) else c)"

fun foldName :: "string \<Rightarrow> string" where
  "foldName (a # b # c # s) =
     (if a = CHR 0xE2 \<and> b = CHR 0x84 \<and> c = CHR 0xAA then CHR ''K'' # foldName s
      else if a = CHR 0xC5 \<and> b = CHR 0xBF then CHR ''S'' # foldName (c # s)
      else upper_ascii a # foldName (b # c # s))"
| "foldName [a, b] =
     (if a = CHR 0xC5 \<and> b = CHR 0xBF then ''S'' else upper_ascii a # foldName [b])"
| "foldName [a] = [upper_ascii a]"
| "foldName [] = []"

definition names_field :: "string \<Rightarrow> string \<Rightarrow> bool" where
  "names_field key name \<longleftrightarrow> key = name \<or> foldName key = foldName name"

text \<open>
  Into a struct: \<^verbatim>\<open>null\<close> leaves it as it is; an object decodes its members one after the
  other, each into the field its key names, and skips a member whose key names no field.
\<close>

fun dec_members ::
  "('s \<Rightarrow> string \<Rightarrow> json \<Rightarrow> 's decoding) \<Rightarrow> 's \<Rightarrow> (string \<times> json) list \<Rightarrow> 's decoding" where
  "dec_members field s [] = Decodes s"
| "dec_members field s ((k, v) # ms) = and_then (field s k v) (\<lambda>s'. dec_members field s' ms)"

definition dec_struct ::
  "('s \<Rightarrow> string \<Rightarrow> json \<Rightarrow> 's decoding) \<Rightarrow> string \<Rightarrow> 's \<Rightarrow> json \<Rightarrow> 's decoding" where
  "dec_struct field ty cur j =
     (case j of
        JNull \<Rightarrow> Decodes cur
      | JObject ms \<Rightarrow> dec_members field cur ms
      | _ \<Rightarrow> Fails (UnmarshalTypeError (json_value_name j) ty))"

text \<open>The three structs of lines 34-49, with the JSON names of their field tags.\<close>

definition Context_field :: "Context \<Rightarrow> string \<Rightarrow> json \<Rightarrow> Context decoding" where
  "Context_field c k v =
     (if names_field k ''id'' then and_then (dec_string (ID c) v) (\<lambda>s. Decodes (c\<lparr>ID := s\<rparr>))
      else if names_field k ''text'' then and_then (dec_string (Text c) v) (\<lambda>s. Decodes (c\<lparr>Text := s\<rparr>))
      else Decodes c)"

definition dec_Context :: "Context \<Rightarrow> json \<Rightarrow> Context decoding" where
  "dec_Context = dec_struct Context_field ''main.Context''"

definition Feature_field :: "Feature \<Rightarrow> string \<Rightarrow> json \<Rightarrow> Feature decoding" where
  "Feature_field f k v =
     (if names_field k ''type'' then
        and_then (dec_string (FeatureType f) v) (\<lambda>s. Decodes (f\<lparr>FeatureType := s\<rparr>))
      else if names_field k ''place_name'' then
        and_then (dec_string (FeaturePlaceName f) v) (\<lambda>s. Decodes (f\<lparr>FeaturePlaceName := s\<rparr>))
      else if names_field k ''center'' then
        and_then (dec_slice dec_float64 0 ''[]float64'' (Center f) v)
          (\<lambda>xs. Decodes (f\<lparr>Center := xs\<rparr>))
      else if names_field k ''context'' then
        and_then (dec_slice dec_Context \<lparr>ID = [], Text = []\<rparr> ''[]main.Context'' (FeatureContext f) v)
          (\<lambda>cs. Decodes (f\<lparr>FeatureContext := cs\<rparr>))
      else Decodes f)"

definition dec_Feature :: "Feature \<Rightarrow> json \<Rightarrow> Feature decoding" where
  "dec_Feature = dec_struct Feature_field ''main.Feature''"

definition GeocodeResponse_field ::
  "GeocodeResponse \<Rightarrow> string \<Rightarrow> json \<Rightarrow> GeocodeResponse decoding" where
  "GeocodeResponse_field r k v =
     (if names_field k ''type'' then and_then (dec_string (Type r) v) (\<lambda>s. Decodes (r\<lparr>Type := s\<rparr>))
      else if names_field k ''features'' then
        and_then
          (dec_slice dec_Feature
             \<lparr>FeatureType = [], FeaturePlaceName = [], Center = [], FeatureContext = []\<rparr>
             ''[]main.Feature'' (Features r) v)
          (\<lambda>fs. Decodes (r\<lparr>Features := fs\<rparr>))
      else Decodes r)"

text \<open>
  \<^verbatim>\<open>var geocodeResp GeocodeResponse; json.Unmarshal(body, &geocodeResp)\<close>: the text is checked
  first, nesting depth included; then the decoding starts from the zero value of the
  struct.
\<close>

definition Unmarshal_GeocodeResponse :: "json \<Rightarrow> GeocodeResponse decoding" where
  "Unmarshal_GeocodeResponse body =
     (if maxNestingDepth < nesting body then Fails (SyntaxError ''exceeded max depth'')
      else dec_struct GeocodeResponse_field ''main.GeocodeResponse''
             \<lparr>Type = [], Features = []\<rparr> body)"

text \<open>
  geocodeAddress on a body that was read and is well-formed JSON: lines 81-112.
  \<open>Error_text\<close> is the \<^verbatim>\<open>Error()\<close> method of the library's error; the result is \<open>None\<close>
  where the decoding is left out of the model.
\<close>

definition geocodeAddress_body ::
  "(unmarshal_error \<Rightarrow> string) \<Rightarrow> json \<Rightarrow> string \<Rightarrow> string \<Rightarrow> LocationInfo outcome option" where
  "geocodeAddress_body Error_text body address accessToken =
     (case Unmarshal_GeocodeResponse body of
        Decodes geocodeResp \<Rightarrow> Some (geocodeAddress (\<lambda>url. Decoded geocodeResp) address accessToken)
      | Fails err \<Rightarrow>
          Some (geocodeAddress (\<lambda>url. UnmarshalError (Error_text err)) address accessToken)
      | Unmodelled \<Rightarrow> None)"

section \<open>Notions used in the statements\<close>

text \<open>The context entries whose id has the given type string as a prefix, in list order.\<close>

definition matching :: "string \<Rightarrow> Context list \<Rightarrow> Context list" where
  "matching prefix ctxs = filter (\<lambda>ctx. HasPrefix (ID ctx) prefix) ctxs"

text \<open>
  Example data. \<open>0x4025000000000000\<close> is the float64 10.5 and \<open>0x404919999999999A\<close> the
  float64 nearest to 50.2.
\<close>

definition plain_feature :: Feature where
  "plain_feature =
     \<lparr>FeatureType = ''Feature'', FeaturePlaceName = ''Erfurt'',
      Center = [0x4025000000000000, 0x404919999999999A], FeatureContext = []\<rparr>"

definition region_feature :: Feature where
  "region_feature =
     \<lparr>FeatureType = ''Feature'', FeaturePlaceName = ''Erfurt'',
      Center = [0x4025000000000000, 0x404919999999999A],
      FeatureContext = [\<lparr>ID = ''region.1'', Text = ''A''\<rparr>, \<lparr>ID = ''region.2'', Text = ''B''\<rparr>]\<rparr>"

definition collection :: "Feature list \<Rightarrow> GeocodeResponse" where
  "collection fs = \<lparr>Type = ''FeatureCollection'', Features = fs\<rparr>"

definition erfurt :: LocationInfo where
  "erfurt = \<lparr>Latitude = 0x404919999999999A, Longitude = 0x4025000000000000,
     Country = unknown, Region = unknown, City = unknown, PlaceName = ''Erfurt''\<rparr>"

text \<open>
  The range invariant of the specification's data model: latitude in [-90, 90] and
  longitude in [-180, 180], with Go's comparison of float64. The four bounds are the bit
  patterns of -90, 90, -180 and 180.
\<close>

definition latitude_in_range :: "float64 \<Rightarrow> bool" where
  "latitude_in_range x \<longleftrightarrow> f64_le 0xC056800000000000 x \<and> f64_le x 0x4056800000000000"

definition longitude_in_range :: "float64 \<Rightarrow> bool" where
  "longitude_in_range x \<longleftrightarrow> f64_le 0xC066800000000000 x \<and> f64_le x 0x4066800000000000"

definition valid_coordinates :: "LocationInfo \<Rightarrow> bool" where
  "valid_coordinates location \<longleftrightarrow>
     latitude_in_range (Latitude location) \<and> longitude_in_range (Longitude location)"

text \<open>A feature with no context and no center, as \<^verbatim>\<open>{"place_name": "Nowhere"}\<close> decodes.\<close>

definition centerless_feature :: Feature where
  "centerless_feature =
     \<lparr>FeatureType = [], FeaturePlaceName = ''Nowhere'', Center = [], FeatureContext = []\<rparr>"

text \<open>A feature whose center is [200, 100]: \<open>0x4069000000000000\<close> is 200 and \<open>0x4059000000000000\<close> is 100.\<close>

definition far_feature :: Feature where
  "far_feature =
     \<lparr>FeatureType = ''Feature'', FeaturePlaceName = ''Nowhere'',
      Center = [0x4069000000000000, 0x4059000000000000], FeatureContext = []\<rparr>"

text \<open>A float64 that is neither a NaN nor an infinity.\<close>

definition f64_finite :: "float64 \<Rightarrow> bool" where
  "f64_finite x \<longleftrightarrow> \<not> IsNaN x \<and> \<not> IsInf x"

text \<open>
  A rendering with exactly six digits after the decimal point: an optional minus sign, one
  or more decimal digits, a point, and six decimal digits up to the end of the text.
\<close>

definition is_digit :: "char \<Rightarrow> bool" where
  "is_digit c \<longleftrightarrow> c \<in> set ''0123456789''"

definition six_decimals :: "string \<Rightarrow> bool" where
  "six_decimals s =
     (let body = (case s of [] \<Rightarrow> [] | c # t \<Rightarrow> if c = CHR ''-'' then t else s);
          whole = takeWhile (\<lambda>c. c \<noteq> CHR ''.'') body;
          rest = dropWhile (\<lambda>c. c \<noteq> CHR ''.'') body
      in whole \<noteq> [] \<and> list_all is_digit whole \<and> rest \<noteq> [] \<and>
         length (tl rest) = 6 \<and> list_all is_digit (tl rest))"

text \<open>
  The point of the specification's example: longitude -73.985428
  (\<open>0xC0527F11409A2403\<close>) and latitude 40.748817 (\<open>0x40445FD93C46D82C\<close>).
\<close>

definition manhattan :: LocationInfo where
  "manhattan = \<lparr>Latitude = 0x40445FD93C46D82C, Longitude = 0xC0527F11409A2403,
     Country = unknown, Region = unknown, City = unknown, PlaceName = ''Empire State Building''\<rparr>"

text \<open>
  A provider that answers at one URL only: a request for \<open>expected\<close> is answered with a
  body that decodes to \<open>resp\<close>, and a request for any other URL fails in \<^verbatim>\<open>http.Get\<close>.
\<close>

definition only_at :: "string \<Rightarrow> 'r \<Rightarrow> string \<Rightarrow> 'r exchange" where
  "only_at expected resp url = (if url = expected then Decoded resp else GetError ''no such host'')"

text \<open>A route of 1000 metres and 60 seconds.\<close>

definition a_route :: Route where
  "a_route = \<lparr>Distance = 0x408F400000000000, Duration = 0x404E000000000000,
     Geometry = \<lparr>Coordinates = []\<rparr>\<rparr>"

text \<open>
  The unreserved bytes, by their characters: the ASCII letters, the digits, and the marks
  hyphen, underscore, full stop and tilde.
\<close>

definition unreserved :: "char \<Rightarrow> bool" where
  "unreserved c \<longleftrightarrow>
     c \<in> set ''abcdefghijklmnopqrstuvwxyzABCDEFGHIJKLMNOPQRSTUVWXYZ0123456789-_.~''"

text \<open>
  The specification's three kinds of failure, and the kind that the text of a message
  stands for: the prefixes of lines 72, 78 and 84 (the same in getDistance) and the whole
  messages of lines 88 and 140.
\<close>

datatype err_kind = NetworkError | DecodeError | NotFoundError

definition kind_of_text :: "string \<Rightarrow> err_kind option" where
  "kind_of_text msg =
     (if HasPrefix msg http_request_msg \<or> HasPrefix msg read_response_msg then Some NetworkError
      else if HasPrefix msg parse_json_msg then Some DecodeError
      else if msg = address_not_found_msg \<or> msg = route_not_found_msg then Some NotFoundError
      else None)"

text \<open>The branch a failing call took, read off the answer of the outside world.\<close>

fun kind_of_exchange :: "'r exchange \<Rightarrow> err_kind" where
  "kind_of_exchange (GetError err) = NetworkError"
| "kind_of_exchange (ReadAllError err) = NetworkError"
| "kind_of_exchange (UnmarshalError err) = DecodeError"
| "kind_of_exchange (Decoded r) = NotFoundError"

text \<open>
  What a caller can tell of an error value without reading message text: its dynamic type
  and the chain of errors it wraps, that is the value with every text blanked.
\<close>

fun without_text :: "go_error \<Rightarrow> go_error" where
  "without_text (errorString s) = errorString []"
| "without_text (wrapError s e) = wrapError [] (without_text e)"

text \<open>
  A JSON object that holds no feature list: no member names the field \<open>Features\<close>, and a
  member that names the field \<open>Type\<close> holds a string or \<^verbatim>\<open>null\<close>.
\<close>

definition no_features_member :: "(string \<times> json) list \<Rightarrow> bool" where
  "no_features_member members \<longleftrightarrow>
     list_all (\<lambda>(k, v). \<not> names_field k ''features'' \<and>
        (names_field k ''type'' \<longrightarrow> (case v of JNull \<Rightarrow> True | JString s \<Rightarrow> True | _ \<Rightarrow> False)))
       members"

text \<open>A body that is an array, a string, a number or a boolean at top level.\<close>

definition neither_object_nor_null :: "json \<Rightarrow> bool" where
  "neither_object_nor_null body =
     (case body of JNull \<Rightarrow> False | JObject ms \<Rightarrow> False | _ \<Rightarrow> True)"

text \<open>The text of \<open>n\<close> opening brackets, \<^verbatim>\<open>null\<close>, and \<open>n\<close> closing brackets.\<close>

fun nested_arrays :: "nat \<Rightarrow> json" where
  "nested_arrays 0 = JNull"
| "nested_arrays (Suc n) = JArray [nested_arrays n]"

text \<open>
  The body \<^verbatim>\<open>{"type":"FeatureCollection","query":["erfurt"],"features":[{"id":"place.123",
  "type":"Feature","relevance":1,"place_name":"Erfurt","center":[10.5,50.2],"context":
  [{"id":"region.1","text":"A"},{"id":"region.2","Text":"B","wikidata":null}]}],
  "attribution":"NOTICE"}\<close>.
\<close>

definition erfurt_body :: json where
  "erfurt_body =
     JObject [(''type'', JString ''FeatureCollection''),
       (''query'', JArray [JString ''erfurt'']),
       (''features'', JArray [
          JObject [(''id'', JString ''place.123''), (''type'', JString ''Feature''),
            (''relevance'', JNumber ''1'' (Some 0x3FF0000000000000)),
            (''place_name'', JString ''Erfurt''),
            (''center'', JArray [JNumber ''10.5'' (Some 0x4025000000000000),
               JNumber ''50.2'' (Some 0x404919999999999A)]),
            (''context'', JArray [
               JObject [(''id'', JString ''region.1''), (''text'', JString ''A'')],
               JObject [(''id'', JString ''region.2''), (''Text'', JString ''B''), (''wikidata'', JNull)]])]]),
       (''attribution'', JString ''NOTICE'')]"

section \<open>Properties of geocodeAddress\<close>

lemma scan_context_Latitude: "Latitude (scan_context cs loc) = Latitude loc"
  by (induction cs arbitrary: loc) (simp_all add: assign_context_def)

lemma scan_context_Longitude: "Longitude (scan_context cs loc) = Longitude loc"
  by (induction cs arbitrary: loc) (simp_all add: assign_context_def)

lemma scan_context_PlaceName: "PlaceName (scan_context cs loc) = PlaceName loc"
  by (induction cs arbitrary: loc) (simp_all add: assign_context_def)

text \<open>
  C1. When the decoded response has a first feature whose center holds a pair (at least
  two numbers), geocodeAddress returns a Location whose longitude is \<^verbatim>\<open>center[0]\<close> and whose
  latitude is \<^verbatim>\<open>center[1]\<close>: the order of the provider's pair is kept, not swapped. The
  witness is the center [10.5, 50.2].
\<close>

theorem geocodeAddress_center_order:
  assumes "world (geocode_apiURL address accessToken) = Decoded resp"
    and "Features resp = feature # others"
    and "Center feature = lon # lat # rest"
  shows "\<exists>location. geocodeAddress world address accessToken = Returned location
           \<and> Longitude location = lon \<and> Latitude location = lat"
  using assms
  by (simp add: geocodeAddress_def locate_def scan_context_Latitude scan_context_Longitude)

theorem geocodeAddress_center_order_witness:
  "\<exists>location.
     geocodeAddress (\<lambda>url. Decoded (collection [plain_feature])) ''Erfurt'' ''tok''
       = Returned location
     \<and> Longitude location = 0x4025000000000000 \<and> Latitude location = 0x404919999999999A"
  using geocodeAddress_center_order
    [of "\<lambda>url. Decoded (collection [plain_feature])" "''Erfurt''" "''tok''"
        "collection [plain_feature]" plain_feature "[]"
        "0x4025000000000000" "0x404919999999999A" "[]"]
  by (simp add: collection_def plain_feature_def)

subsection \<open>The context loop\<close>

lemma HasPrefix_Cons: "HasPrefix s (c # p) \<longleftrightarrow> (\<exists>t. s = c # t \<and> HasPrefix t p)"
  by (cases s) (auto simp: HasPrefix_def)

text \<open>
  The three type strings start with different letters, so at most one branch of the
  \<^verbatim>\<open>if\<close>/\<^verbatim>\<open>else if\<close> chain can match an entry, and the order of the chain does not matter.
\<close>

lemma not_country_if_region: "HasPrefix s ''region'' \<Longrightarrow> \<not> HasPrefix s ''country''"
  by (auto simp: HasPrefix_Cons)

lemma not_country_if_place: "HasPrefix s ''place'' \<Longrightarrow> \<not> HasPrefix s ''country''"
  by (auto simp: HasPrefix_Cons)

lemma not_region_if_place: "HasPrefix s ''place'' \<Longrightarrow> \<not> HasPrefix s ''region''"
  by (auto simp: HasPrefix_Cons)

lemma scan_context_Country:
  "Country (scan_context cs loc) =
     (if matching ''country'' cs = [] then Country loc else Text (last (matching ''country'' cs)))"
  by (induction cs arbitrary: loc) (auto simp: matching_def assign_context_def)

lemma scan_context_Region:
  "Region (scan_context cs loc) =
     (if matching ''region'' cs = [] then Region loc else Text (last (matching ''region'' cs)))"
  by (induction cs arbitrary: loc)
     (auto simp: matching_def assign_context_def dest: not_country_if_region)

lemma scan_context_City:
  "City (scan_context cs loc) =
     (if matching ''place'' cs = [] then City loc else Text (last (matching ''place'' cs)))"
  by (induction cs arbitrary: loc)
     (auto simp: matching_def assign_context_def dest: not_country_if_place not_region_if_place)

text \<open>
  C2. For a response with a first feature (whose center holds a pair), and for each of the
  type strings country, region and place: when some context entry of the first feature has
  an id with that type string as a prefix, the field Country, Region or City of the returned
  Location is the text of the last such entry. The match is \<^verbatim>\<open>strings.HasPrefix\<close>, not
  equality. The witness is the context [region.1 "A", region.2 "B"], with region "B".
\<close>

theorem geocodeAddress_last_match_wins:
  assumes "world (geocode_apiURL address accessToken) = Decoded resp"
    and "Features resp = feature # others"
    and "Center feature = lon # lat # rest"
  shows "\<exists>location. geocodeAddress world address accessToken = Returned location
     \<and> (matching ''country'' (FeatureContext feature) \<noteq> [] \<longrightarrow>
          Country location = Text (last (matching ''country'' (FeatureContext feature))))
     \<and> (matching ''region'' (FeatureContext feature) \<noteq> [] \<longrightarrow>
          Region location = Text (last (matching ''region'' (FeatureContext feature))))
     \<and> (matching ''place'' (FeatureContext feature) \<noteq> [] \<longrightarrow>
          City location = Text (last (matching ''place'' (FeatureContext feature))))"
  using assms
  by (simp add: geocodeAddress_def locate_def scan_context_Country scan_context_Region
      scan_context_City)

theorem geocodeAddress_last_match_wins_witness:
  "\<exists>location.
     geocodeAddress (\<lambda>url. Decoded (collection [region_feature])) ''Erfurt'' ''tok''
       = Returned location
     \<and> Region location = ''B''"
  using geocodeAddress_last_match_wins
    [of "\<lambda>url. Decoded (collection [region_feature])" "''Erfurt''" "''tok''"
        "collection [region_feature]" region_feature "[]"
        "0x4025000000000000" "0x404919999999999A" "[]"]
  by (simp add: collection_def region_feature_def matching_def HasPrefix_def)

text \<open>
  C6, as stated, fails: an empty context list does not make the resolution succeed. On a
  response whose first feature has an empty context list and an empty center,
  geocodeAddress returns no Location: it panics at \<^verbatim>\<open>feature.Center[0]\<close>.
\<close>

theorem geocodeAddress_empty_context_without_center:
  "FeatureContext centerless_feature = []
   \<and> geocodeAddress (\<lambda>url. Decoded (collection [centerless_feature])) ''Nowhere'' ''tok''
       = Panicked (IndexOutOfRange 0 0)"
  by (simp add: geocodeAddress_def locate_def collection_def centerless_feature_def)

text \<open>
  C6, amended. For a response whose first feature has an empty context list and a center
  of at least two numbers, geocodeAddress returns without error a Location whose country,
  region and city are the sentinel \<open>unknown\<close>, and whose latitude, longitude and display
  name are those of the feature. (Nothing is said here of a shorter center.)
\<close>

theorem geocodeAddress_empty_context:
  assumes "world (geocode_apiURL address accessToken) = Decoded resp"
    and "Features resp = feature # others"
    and "Center feature = lon # lat # rest"
    and "FeatureContext feature = []"
  shows "geocodeAddress world address accessToken =
     Returned \<lparr>Latitude = lat, Longitude = lon, Country = unknown, Region = unknown,
       City = unknown, PlaceName = FeaturePlaceName feature\<rparr>"
  using assms by (simp add: geocodeAddress_def locate_def)

theorem geocodeAddress_empty_context_witness:
  "geocodeAddress (\<lambda>url. Decoded (collection [plain_feature])) ''Erfurt'' ''tok''
   = Returned \<lparr>Latitude = 0x404919999999999A, Longitude = 0x4025000000000000,
       Country = unknown, Region = unknown, City = unknown, PlaceName = ''Erfurt''\<rparr>"
  using geocodeAddress_empty_context
    [of "\<lambda>url. Decoded (collection [plain_feature])" "''Erfurt''" "''tok''"
        "collection [plain_feature]" plain_feature "[]"
        "0x4025000000000000" "0x404919999999999A" "[]"]
  by (simp add: collection_def plain_feature_def)

text \<open>
  C3. When the body decodes to a geocoding response with an empty feature list,
  geocodeAddress fails with the "address not found" error of line 88; when it decodes to a
  directions response with an empty route list, getDistance fails with the "route not
  found" error of line 140. Neither error is the JSON parsing error of lines 84 and 136,
  whatever the cause of that one, and neither call returns a Location or a distance.
\<close>

theorem empty_result_list_not_found:
  "(world (geocode_apiURL address accessToken) = Decoded resp \<and> Features resp = [] \<longrightarrow>
      geocodeAddress world address accessToken = Failed (errorString address_not_found_msg))
   \<and> (dworld (directions_apiURL start endp accessToken) = Decoded dresp \<and> Routes dresp = [] \<longrightarrow>
      getDistance dworld start endp accessToken = Failed (errorString route_not_found_msg))
   \<and> (\<forall>cause. errorString address_not_found_msg \<noteq> Errorf_v parse_json_msg cause)
   \<and> (\<forall>cause. errorString route_not_found_msg \<noteq> Errorf_v parse_json_msg cause)"
  by (simp add: geocodeAddress_def locate_def getDistance_def Errorf_v_def
      address_not_found_msg_def route_not_found_msg_def parse_json_msg_def)

theorem empty_result_list_not_found_witness:
  "geocodeAddress (\<lambda>url. Decoded (collection [])) ''qqq'' ''tok''
     = Failed (errorString address_not_found_msg)
   \<and> getDistance (\<lambda>url. Decoded \<lparr>Routes = []\<rparr>) erfurt erfurt ''tok''
     = Failed (errorString route_not_found_msg)"
  using empty_result_list_not_found
    [of "\<lambda>url. Decoded (collection [])" "''qqq''" "''tok''" "collection []"
        "\<lambda>url. Decoded \<lparr>Routes = []\<rparr>" erfurt erfurt "\<lparr>Routes = []\<rparr>"]
  by (simp add: collection_def)

text \<open>
  C9. The index expressions \<^verbatim>\<open>feature.Center[0]\<close> and \<^verbatim>\<open>feature.Center[1]\<close> of lines 94-95 are
  not guarded: on a response whose first feature has an empty center, or a center of one
  number, geocodeAddress panics with an index out of range instead of returning an error.
\<close>

theorem geocodeAddress_short_center_panics:
  "geocodeAddress
     (\<lambda>url. Decoded (collection [\<lparr>FeatureType = ''Feature'', FeaturePlaceName = ''Erfurt'',
          Center = [], FeatureContext = []\<rparr>]))
     ''Erfurt'' ''tok'' = Panicked (IndexOutOfRange 0 0)
   \<and> geocodeAddress
     (\<lambda>url. Decoded (collection [\<lparr>FeatureType = ''Feature'', FeaturePlaceName = ''Erfurt'',
          Center = [0x4025000000000000], FeatureContext = []\<rparr>]))
     ''Erfurt'' ''tok'' = Panicked (IndexOutOfRange 1 1)"
  by (simp add: geocodeAddress_def locate_def collection_def)

subsection \<open>Coordinate ranges\<close>

text \<open>The definitions that evaluate a concrete float64.\<close>

lemmas f64_defs =
  IsNaN_def IsInf_def f64_sign_def f64_exponent_def f64_fraction_def f64_mant_def f64_pow_def

text \<open>
  C8, as stated, fails: geocodeAddress checks no range. From a response whose first
  feature has the center [200, 100] it constructs a Location with longitude 200 and
  latitude 100, outside [-180, 180] and [-90, 90].
\<close>

theorem geocodeAddress_range_unchecked:
  "geocodeAddress (\<lambda>url. Decoded (collection [far_feature])) ''Nowhere'' ''tok''
     = Returned \<lparr>Latitude = 0x4059000000000000, Longitude = 0x4069000000000000,
         Country = unknown, Region = unknown, City = unknown, PlaceName = ''Nowhere''\<rparr>
   \<and> \<not> latitude_in_range 0x4059000000000000
   \<and> \<not> longitude_in_range 0x4069000000000000
   \<and> \<not> valid_coordinates \<lparr>Latitude = 0x4059000000000000, Longitude = 0x4069000000000000,
         Country = unknown, Region = unknown, City = unknown, PlaceName = ''Nowhere''\<rparr>"
  by (simp add: geocodeAddress_def locate_def collection_def far_feature_def
      valid_coordinates_def latitude_in_range_def longitude_in_range_def
      f64_le_def f64_scaled_def f64_defs)

text \<open>
  C8, amended. The coordinates of a constructed Location are the provider's, unchecked: the
  Location satisfies latitude in [-90, 90] and longitude in [-180, 180] exactly when the
  first feature's \<^verbatim>\<open>center[1]\<close> and \<^verbatim>\<open>center[0]\<close> do.
\<close>

theorem geocodeAddress_range_as_provided:
  assumes "world (geocode_apiURL address accessToken) = Decoded resp"
    and "Features resp = feature # others"
    and "Center feature = lon # lat # rest"
  shows "\<exists>location. geocodeAddress world address accessToken = Returned location
     \<and> Latitude location = lat \<and> Longitude location = lon
     \<and> (valid_coordinates location \<longleftrightarrow> latitude_in_range lat \<and> longitude_in_range lon)"
  using assms
  by (simp add: geocodeAddress_def locate_def valid_coordinates_def
      scan_context_Latitude scan_context_Longitude)

theorem geocodeAddress_range_as_provided_witness:
  "\<exists>location.
     geocodeAddress (\<lambda>url. Decoded (collection [plain_feature])) ''Erfurt'' ''tok''
       = Returned location
     \<and> Latitude location = 0x404919999999999A \<and> Longitude location = 0x4025000000000000
     \<and> valid_coordinates location"
  using geocodeAddress_range_as_provided
    [of "\<lambda>url. Decoded (collection [plain_feature])" "''Erfurt''" "''tok''"
        "collection [plain_feature]" plain_feature "[]"
        "0x4025000000000000" "0x404919999999999A" "[]"]
  by (simp add: collection_def plain_feature_def latitude_in_range_def longitude_in_range_def
      f64_le_def f64_scaled_def f64_defs)

section \<open>Properties of getDistance\<close>

lemma digit_is_digit: "d < 10 \<Longrightarrow> is_digit (digit d)"
  by (simp add: is_digit_def digit_def del: set_simps)

lemma itoa_digits: "list_all is_digit (itoa n) \<and> itoa n \<noteq> []"
proof (induction n rule: itoa.induct)
  case (1 n)
  show ?case
  proof (cases "n < 10")
    case True
    then show ?thesis by (subst (1 2) itoa.simps) (simp add: digit_is_digit)
  next
    case False
    with 1 show ?thesis by (subst (1 2) itoa.simps) (simp add: digit_is_digit)
  qed
qed

lemma frac6_digits: "length (frac6 n) = 6 \<and> list_all is_digit (frac6 n)"
  by (simp add: frac6_def digit_is_digit)

lemma digit_not_point: "is_digit c \<Longrightarrow> c \<noteq> CHR ''.''"
  by (auto simp: is_digit_def)

lemma digit_not_minus: "is_digit c \<Longrightarrow> c \<noteq> CHR ''-''"
  by (auto simp: is_digit_def)

lemma six_decimals_unsigned:
  assumes "list_all is_digit ip" "ip \<noteq> []" "list_all is_digit fp" "length fp = 6"
  shows "six_decimals (ip @ ''.'' @ fp)"
proof -
  have np: "\<And>c. c \<in> set ip \<Longrightarrow> c \<noteq> CHR ''.''"
    using assms(1) by (auto simp: list_all_iff dest: digit_not_point)
  obtain c t where ip: "ip = c # t" using assms(2) by (cases ip) auto
  have c: "c \<noteq> CHR ''-''" using assms(1) ip by (auto dest: digit_not_minus)
  have tw: "takeWhile (\<lambda>c. c \<noteq> CHR ''.'') (ip @ ''.'' @ fp) = ip"
    using np by (simp add: takeWhile_append2)
  have dw: "dropWhile (\<lambda>c. c \<noteq> CHR ''.'') (ip @ ''.'' @ fp) = ''.'' @ fp"
    using np by (simp add: dropWhile_append2)
  have body: "(case ip @ ''.'' @ fp of [] \<Rightarrow> [] | c # t \<Rightarrow> if c = CHR ''-'' then t else ip @ ''.'' @ fp) = ip @ ''.'' @ fp"
    using ip c by simp
  show ?thesis
    unfolding six_decimals_def body Let_def tw dw using assms by simp
qed

lemma six_decimals_signed:
  assumes "list_all is_digit ip" "ip \<noteq> []" "list_all is_digit fp" "length fp = 6"
  shows "six_decimals (''-'' @ ip @ ''.'' @ fp)"
proof -
  have np: "\<And>c. c \<in> set ip \<Longrightarrow> c \<noteq> CHR ''.''"
    using assms(1) by (auto simp: list_all_iff dest: digit_not_point)
  have tw: "takeWhile (\<lambda>c. c \<noteq> CHR ''.'') (ip @ ''.'' @ fp) = ip"
    using np by (simp add: takeWhile_append2)
  have dw: "dropWhile (\<lambda>c. c \<noteq> CHR ''.'') (ip @ ''.'' @ fp) = ''.'' @ fp"
    using np by (simp add: dropWhile_append2)
  show ?thesis
    unfolding six_decimals_def using assms tw dw by (simp add: Let_def)
qed

lemma fmt_f6_six_decimals: "f64_finite x \<Longrightarrow> six_decimals (fmt_f6 x)"
  using six_decimals_unsigned [OF _ _ _ _, of "itoa (f64_micro x div 10 ^ 6)" "frac6 (f64_micro x mod 10 ^ 6)"]
        six_decimals_signed [OF _ _ _ _, of "itoa (f64_micro x div 10 ^ 6)" "frac6 (f64_micro x mod 10 ^ 6)"]
  by (simp add: fmt_f6_def f64_finite_def itoa_digits frac6_digits)

text \<open>
  A Location of the specification, with latitude in [-90, 90] and longitude in [-180, 180],
  has finite coordinates: no comparison holds of a NaN, and an infinity is outside any
  finite bounds.
\<close>

lemma range_bounds_finite:
  "f64_finite 0xC056800000000000" "f64_finite 0x4056800000000000"
  "f64_finite 0xC066800000000000" "f64_finite 0x4066800000000000"
  by (simp_all add: f64_finite_def f64_defs)

lemma f64_between_finite:
  assumes "f64_finite lo" and "f64_finite hi" and "f64_le lo x" and "f64_le x hi"
  shows "f64_finite x"
  using assms by (auto simp: f64_finite_def f64_le_def split: if_splits)

lemma valid_coordinates_finite:
  "valid_coordinates location \<Longrightarrow>
     f64_finite (Latitude location) \<and> f64_finite (Longitude location)"
  unfolding valid_coordinates_def latitude_in_range_def longitude_in_range_def
  using f64_between_finite range_bounds_finite by blast


lemmas fmt_eval =
  fmt_f6_def f64_defs f64_micro_def round_half_even_def itoa.simps frac6_def digit_def

text \<open>The bit patterns of the examples and of the range bounds, rendered.\<close>

lemma example_patterns:
  "fmt_f6 0x4025000000000000 = ''10.500000''"
  "fmt_f6 0x404919999999999A = ''50.200000''"
  "fmt_f6 0x4069000000000000 = ''200.000000''"
  "fmt_f6 0x4059000000000000 = ''100.000000''"
  "fmt_f6 0xC056800000000000 = ''-90.000000''"
  "fmt_f6 0x4056800000000000 = ''90.000000''"
  "fmt_f6 0xC066800000000000 = ''-180.000000''"
  "fmt_f6 0x4066800000000000 = ''180.000000''"
  "fmt_f6 0x408F400000000000 = ''1000.000000''"
  "fmt_f6 0x404E000000000000 = ''60.000000''"
  by (simp_all add: fmt_eval)

text \<open>Ties go to the even digit, and what is not finite has no digits.\<close>

lemma rounding_examples:
  "fmt_f6 0x3F80000000000000 = ''0.007812''"
  "fmt_f6 0x3F98000000000000 = ''0.023438''"
  "fmt_f6 0x8000000000000000 = ''-0.000000''"
  "fmt_f6 0x7FF8000000000000 = ''NaN''"
  "fmt_f6 0x7FF0000000000000 = ''+Inf''"
  by (simp_all add: fmt_eval)


section \<open>The geocoding URL\<close>

text \<open>
  C7, as stated, fails: the free text is escaped with \<^verbatim>\<open>url.QueryEscape\<close>, the escaping of
  query components, which writes a space as \<^verbatim>\<open>+\<close> and not as a percent escape. The URL for
  the address "New York" has \<^verbatim>\<open>New+York\<close> in its path and no percent sign at all, and it
  is the URL that geocodeAddress requests: a provider that answers at that URL only is
  heard.
\<close>

theorem geocode_apiURL_space_is_plus:
  "geocode_apiURL ''New York'' ''tok''
     = ''https://api.mapbox.com/geocoding/v5/mapbox.places/New+York.json?access_token=tok''
   \<and> CHR ''%'' \<notin> set (geocode_apiURL ''New York'' ''tok'')
   \<and> geocodeAddress
         (only_at ''https://api.mapbox.com/geocoding/v5/mapbox.places/New+York.json?access_token=tok''
            (collection [plain_feature]))
         ''New York'' ''tok'' = Returned erfurt"
  by (simp add: geocodeAddress_def only_at_def locate_def collection_def plain_feature_def
      erfurt_def geocode_apiURL_def geocode_baseURL_def QueryEscape_def escape_byte_def
      shouldEscape_def)

subsection \<open>The bytes that are kept\<close>

text \<open>
  \<^verbatim>\<open>shouldEscape\<close> tests ranges of byte values; the ranges hold the letters and the digits and
  nothing else, so the bytes it keeps are the unreserved ones.
\<close>

lemma lower_case_codes: "map of_char ''abcdefghijklmnopqrstuvwxyz'' = [97..<(123::nat)]"
  by (simp add: upt_rec_numeral)

lemma upper_case_codes: "map of_char ''ABCDEFGHIJKLMNOPQRSTUVWXYZ'' = [65..<(91::nat)]"
  by (simp add: upt_rec_numeral)

lemma digit_codes: "map of_char ''0123456789'' = [48..<(58::nat)]"
  by (simp add: upt_rec_numeral)

lemma code_in_range:
  assumes "map of_char cs = [lo..<(hi::nat)]"
  shows "lo \<le> of_char c \<and> of_char c < hi \<longleftrightarrow> c \<in> set cs"
proof -
  have "lo \<le> (of_char c :: nat) \<and> (of_char c :: nat) < hi
          \<longleftrightarrow> (of_char c :: nat) \<in> set [lo..<hi]"
    by auto
  also have "\<dots> \<longleftrightarrow> (of_char c :: nat) \<in> of_char ` set cs"
    by (simp only: assms [symmetric] set_map)
  also have "\<dots> \<longleftrightarrow> c \<in> set cs"
    by auto
  finally show ?thesis .
qed

lemma shouldEscape_iff: "shouldEscape c \<longleftrightarrow> \<not> unreserved c"
proof -
  have l: "97 \<le> (of_char c :: nat) \<and> (of_char c :: nat) \<le> 122
             \<longleftrightarrow> c \<in> set ''abcdefghijklmnopqrstuvwxyz''"
    using code_in_range [OF lower_case_codes, of c] by auto
  have u: "65 \<le> (of_char c :: nat) \<and> (of_char c :: nat) \<le> 90
             \<longleftrightarrow> c \<in> set ''ABCDEFGHIJKLMNOPQRSTUVWXYZ''"
    using code_in_range [OF upper_case_codes, of c] by auto
  have d: "48 \<le> (of_char c :: nat) \<and> (of_char c :: nat) \<le> 57 \<longleftrightarrow> c \<in> set ''0123456789''"
    using code_in_range [OF digit_codes, of c] by auto
  show ?thesis
    unfolding shouldEscape_def Let_def l u d unreserved_def by auto
qed

lemma upperhex_unreserved: "n < 16 \<Longrightarrow> unreserved (upperhex ! n)"
proof -
  have "list_all unreserved upperhex"
    by (simp add: upperhex_def unreserved_def)
  moreover assume "n < 16"
  ultimately show ?thesis by (simp add: list_all_length upperhex_def)
qed

lemma of_char_lt_256: "(of_char b :: nat) < 256"
proof -
  have "(of_char b :: nat) mod 256 < 256" by simp
  then show ?thesis by (simp only: of_char_mod_256)
qed

lemma escape_byte_chars:
  "c \<in> set (escape_byte b) \<Longrightarrow> unreserved c \<or> c = CHR ''+'' \<or> c = CHR ''%''"
proof -
  have hi: "(of_char b :: nat) div 16 < 16"
    by (rule less_mult_imp_div_less) (use of_char_lt_256 [of b] in simp)
  have lo: "(of_char b :: nat) mod 16 < 16" by simp
  assume "c \<in> set (escape_byte b)"
  then show ?thesis
    using upperhex_unreserved [OF hi] upperhex_unreserved [OF lo]
    by (auto simp: escape_byte_def shouldEscape_iff split: if_splits)
qed

lemma QueryEscape_chars:
  "c \<in> set (QueryEscape s) \<Longrightarrow> unreserved c \<or> c = CHR ''+'' \<or> c = CHR ''%''"
  by (auto simp: QueryEscape_def dest: escape_byte_chars)

lemma QueryEscape_Cons: "QueryEscape (c # s) = escape_byte c @ QueryEscape s"
  by (simp add: QueryEscape_def)

text \<open>
  C7, amended. For every input string, geocodeAddress requests the URL that consists of
  the place-search base endpoint, the free text escaped by \<^verbatim>\<open>url.QueryEscape\<close>, \<^verbatim>\<open>.json\<close>, and
  the access token attached verbatim as the query parameter \<^verbatim>\<open>access_token\<close>: when the provider
  answers at that URL only, the answer is the one geocodeAddress works on. The escaped
  text holds only unreserved bytes (the ASCII letters, the digits and \<^verbatim>\<open>- _ . ~\<close>), \<^verbatim>\<open>+\<close> and
  \<^verbatim>\<open>%\<close>; byte by byte, a space becomes \<^verbatim>\<open>+\<close>, an unreserved byte stays, and any other byte
  becomes \<^verbatim>\<open>%\<close> and its two upper-case hexadecimal digits.
\<close>

theorem geocode_apiURL_query_escaped:
  "geocodeAddress
       (only_at (geocode_baseURL @ QueryEscape address @ ''.json?access_token='' @ accessToken)
          resp)
       address accessToken = locate resp
   \<and> geocode_apiURL address accessToken =
       geocode_baseURL @ QueryEscape address @ ''.json?access_token='' @ accessToken
   \<and> (\<forall>c \<in> set (QueryEscape address). unreserved c \<or> c = CHR ''+'' \<or> c = CHR ''%'')
   \<and> QueryEscape [] = []
   \<and> (\<forall>c s. QueryEscape (c # s) =
         (if c = CHR '' '' then ''+''
          else if unreserved c then [c]
          else [CHR ''%'', upperhex ! ((of_char c :: nat) div 16), upperhex ! ((of_char c :: nat) mod 16)])
         @ QueryEscape s)"
proof (intro conjI)
  show "geocodeAddress
       (only_at (geocode_baseURL @ QueryEscape address @ ''.json?access_token='' @ accessToken)
          resp)
       address accessToken = locate resp"
    by (simp add: geocodeAddress_def geocode_apiURL_def only_at_def)
  show "geocode_apiURL address accessToken =
       geocode_baseURL @ QueryEscape address @ ''.json?access_token='' @ accessToken"
    by (simp add: geocode_apiURL_def)
  show "\<forall>c \<in> set (QueryEscape address). unreserved c \<or> c = CHR ''+'' \<or> c = CHR ''%''"
    using QueryEscape_chars by blast
  show "QueryEscape [] = []"
    by (simp add: QueryEscape_def)
  show "\<forall>c s. QueryEscape (c # s) =
         (if c = CHR '' '' then ''+''
          else if unreserved c then [c]
          else [CHR ''%'', upperhex ! ((of_char c :: nat) div 16), upperhex ! ((of_char c :: nat) mod 16)])
         @ QueryEscape s"
    by (simp add: QueryEscape_Cons escape_byte_def shouldEscape_iff)
qed

theorem geocode_apiURL_query_escaped_witness:
  "geocodeAddress
     (only_at ''https://api.mapbox.com/geocoding/v5/mapbox.places/a+%D0%9A%2F~%26.json?access_token=tok''
        (collection [plain_feature]))
     [CHR ''a'', CHR '' '', CHR 0xD0, CHR 0x9A, CHR ''/'', CHR ''~'', CHR ''&''] ''tok''
     = Returned erfurt
   \<and> geocode_apiURL [CHR ''a'', CHR '' '', CHR 0xD0, CHR 0x9A, CHR ''/'', CHR ''~'', CHR ''&''] ''tok'' =
     ''https://api.mapbox.com/geocoding/v5/mapbox.places/a+%D0%9A%2F~%26.json?access_token=tok''
   \<and> list_all (\<lambda>c. unreserved c \<or> c = CHR ''+'' \<or> c = CHR ''%'') ''a+%D0%9A%2F~%26''"
proof -
  have l: "locate (collection [plain_feature]) = Returned erfurt"
    by (simp add: locate_def collection_def plain_feature_def erfurt_def)
  have q: "QueryEscape [CHR ''a'', CHR '' '', CHR 0xD0, CHR 0x9A, CHR ''/'', CHR ''~'', CHR ''&'']
             = ''a+%D0%9A%2F~%26''"
    by (simp add: QueryEscape_def escape_byte_def shouldEscape_def upperhex_def)
  from geocode_apiURL_query_escaped
         [of "[CHR ''a'', CHR '' '', CHR 0xD0, CHR 0x9A, CHR ''/'', CHR ''~'', CHR ''&'']" "''tok''"
             "collection [plain_feature]"]
  show ?thesis
    by (simp add: l q geocode_baseURL_def unreserved_def list_all_iff)
qed

section \<open>The kinds of failure\<close>

text \<open>
  C4, as stated, fails: every error the two functions return is an \<open>errorString\<close>, a value
  that holds a message text and nothing else. A transport failure, a decode failure and a
  "not found" of geocodeAddress are equal once their texts are blanked: a caller can tell
  them apart by message text only.
\<close>

theorem failure_kinds_differ_only_in_text:
  "geocodeAddress (\<lambda>url. GetError ''timeout'') ''qqq'' ''tok''
     = Failed (errorString (http_request_msg @ ''timeout''))
   \<and> geocodeAddress (\<lambda>url. UnmarshalError ''unexpected end of JSON input'') ''qqq'' ''tok''
     = Failed (errorString (parse_json_msg @ ''unexpected end of JSON input''))
   \<and> geocodeAddress (\<lambda>url. Decoded (collection [])) ''qqq'' ''tok''
     = Failed (errorString address_not_found_msg)
   \<and> without_text (errorString address_not_found_msg)
     = without_text (errorString (http_request_msg @ ''timeout''))
   \<and> without_text (errorString address_not_found_msg)
     = without_text (errorString (parse_json_msg @ ''unexpected end of JSON input''))"
  by (simp add: geocodeAddress_def locate_def collection_def Errorf_v_def)

lemma HasPrefix_append: "HasPrefix (p @ c) p"
  by (simp add: HasPrefix_def)

lemma kind_of_http_request: "kind_of_text (http_request_msg @ c) = Some NetworkError"
  by (simp add: kind_of_text_def HasPrefix_append)

lemma kind_of_read_response: "kind_of_text (read_response_msg @ c) = Some NetworkError"
  by (simp add: kind_of_text_def HasPrefix_append)

lemma parse_not_http: "\<not> HasPrefix (parse_json_msg @ c) http_request_msg"
  by (simp add: HasPrefix_def parse_json_msg_def http_request_msg_def)

lemma parse_not_read: "\<not> HasPrefix (parse_json_msg @ c) read_response_msg"
  by (simp add: HasPrefix_def parse_json_msg_def read_response_msg_def)

lemma kind_of_parse_json: "kind_of_text (parse_json_msg @ c) = Some DecodeError"
  by (simp add: kind_of_text_def HasPrefix_append parse_not_http parse_not_read)

lemma address_not_prefixed:
  "\<not> HasPrefix address_not_found_msg http_request_msg"
  "\<not> HasPrefix address_not_found_msg read_response_msg"
  "\<not> HasPrefix address_not_found_msg parse_json_msg"
  by (simp_all add: HasPrefix_def address_not_found_msg_def http_request_msg_def
      read_response_msg_def parse_json_msg_def)

lemma route_not_prefixed:
  "\<not> HasPrefix route_not_found_msg http_request_msg"
  "\<not> HasPrefix route_not_found_msg read_response_msg"
  "\<not> HasPrefix route_not_found_msg parse_json_msg"
  by (simp_all add: HasPrefix_def route_not_found_msg_def http_request_msg_def
      read_response_msg_def parse_json_msg_def)

lemma kind_of_not_found:
  "kind_of_text address_not_found_msg = Some NotFoundError"
  "kind_of_text route_not_found_msg = Some NotFoundError"
  by (simp_all add: kind_of_text_def address_not_prefixed route_not_prefixed)

lemma locate_Failed: "locate resp = Failed e \<Longrightarrow> e = errorString address_not_found_msg"
  by (simp add: locate_def Let_def split: if_splits)

lemmas kind_of_message =
  kind_of_http_request kind_of_read_response kind_of_parse_json kind_of_not_found

text \<open>
  C4, amended. For every failing run of geocodeAddress or getDistance, the kind of the
  failure (a transport failure of \<^verbatim>\<open>http.Get\<close> or \<^verbatim>\<open>io.ReadAll\<close>, a decode failure, or "not found"
  on a decoded response) is determined by the message text of the returned error, whatever
  the text of the underlying cause; and the message text is all the error holds.
\<close>

theorem failure_kind_in_message_text:
  "(geocodeAddress world address accessToken = Failed e \<longrightarrow>
      kind_of_text (Error e)
        = Some (kind_of_exchange (world (geocode_apiURL address accessToken)))
      \<and> without_text e = errorString [])
   \<and> (getDistance dworld start endp accessToken = Failed e' \<longrightarrow>
      kind_of_text (Error e')
        = Some (kind_of_exchange (dworld (directions_apiURL start endp accessToken)))
      \<and> without_text e' = errorString [])"
proof (intro conjI impI)
  assume g: "geocodeAddress world address accessToken = Failed e"
  show "kind_of_text (Error e)
        = Some (kind_of_exchange (world (geocode_apiURL address accessToken)))"
    using g
    by (cases "world (geocode_apiURL address accessToken)")
       (auto simp: geocodeAddress_def Errorf_v_def kind_of_message dest: locate_Failed)
  show "without_text e = errorString []"
    using g
    by (cases "world (geocode_apiURL address accessToken)")
       (auto simp: geocodeAddress_def Errorf_v_def dest: locate_Failed)
next
  assume d: "getDistance dworld start endp accessToken = Failed e'"
  show "kind_of_text (Error e')
        = Some (kind_of_exchange (dworld (directions_apiURL start endp accessToken)))"
    using d
    by (cases "dworld (directions_apiURL start endp accessToken)")
       (auto simp: getDistance_def Errorf_v_def kind_of_message Let_def split: if_splits)
  show "without_text e' = errorString []"
    using d
    by (cases "dworld (directions_apiURL start endp accessToken)")
       (auto simp: getDistance_def Errorf_v_def Let_def split: if_splits)
qed

theorem failure_kind_in_message_text_witness:
  "kind_of_text (Error (errorString address_not_found_msg)) = Some NotFoundError
   \<and> kind_of_text (Error (errorString (parse_json_msg @ ''unexpected end of JSON input''))) = Some DecodeError
   \<and> kind_of_text (Error (errorString route_not_found_msg)) = Some NotFoundError
   \<and> kind_of_text (Error (errorString (http_request_msg @ ''timeout''))) = Some NetworkError"
proof -
  have 1: "geocodeAddress (\<lambda>url. Decoded (collection [])) ''qqq'' ''tok''
     = Failed (errorString address_not_found_msg)"
    by (simp add: geocodeAddress_def locate_def collection_def)
  have 2: "geocodeAddress (\<lambda>url. UnmarshalError ''unexpected end of JSON input'') ''qqq'' ''tok''
     = Failed (errorString (parse_json_msg @ ''unexpected end of JSON input''))"
    by (simp add: geocodeAddress_def Errorf_v_def)
  have 3: "getDistance (\<lambda>url. Decoded \<lparr>Routes = []\<rparr>) erfurt erfurt ''tok''
     = Failed (errorString route_not_found_msg)"
    by (simp add: getDistance_def)
  have 4: "getDistance (\<lambda>url. GetError ''timeout'') erfurt erfurt ''tok''
     = Failed (errorString (http_request_msg @ ''timeout''))"
    by (simp add: getDistance_def Errorf_v_def)
  from failure_kind_in_message_text
         [of "\<lambda>url. Decoded (collection [])" "''qqq''" "''tok''" "errorString address_not_found_msg"
             "\<lambda>url. Decoded \<lparr>Routes = []\<rparr>" erfurt erfurt "errorString route_not_found_msg"]
       failure_kind_in_message_text
         [of "\<lambda>url. UnmarshalError ''unexpected end of JSON input''" "''qqq''" "''tok''"
             "errorString (parse_json_msg @ ''unexpected end of JSON input'')"
             "\<lambda>url. GetError ''timeout''" erfurt erfurt "errorString (http_request_msg @ ''timeout'')"]
       1 2 3 4
  show ?thesis by simp
qed

section \<open>Bodies that are JSON but not a geocoding response\<close>

lemmas decode_defs =
  Unmarshal_GeocodeResponse_def dec_struct_def GeocodeResponse_field_def dec_slice_def
  dec_Feature_def Feature_field_def dec_Context_def Context_field_def dec_string_def
  dec_float64_def names_field_def upper_ascii_def maxNestingDepth_def

text \<open>The decoder on a body as the provider sends it.\<close>

lemma Unmarshal_erfurt_body:
  "Unmarshal_GeocodeResponse erfurt_body = Decodes (collection [region_feature])"
  by (simp add: erfurt_body_def decode_defs collection_def region_feature_def)

text \<open>Keys are matched without regard to case, and a long s counts as an s.\<close>

lemma names_field_examples:
  "names_field ''Features'' ''features''"
  "names_field ''FEATURES'' ''features''"
  "names_field [CHR ''f'', CHR ''e'', CHR ''a'', CHR ''t'', CHR ''u'', CHR ''r'', CHR ''e'',
                CHR 0xC5, CHR 0xBF] ''features''"
  "\<not> names_field ''feature'' ''features''"
  "\<not> names_field ''message'' ''features''"
  by (simp_all add: names_field_def upper_ascii_def)

text \<open>
  C10, as stated, fails: a body can be valid JSON, match nothing of the geocoding schema,
  and still fail with the JSON parsing error. The body \<^verbatim>\<open>[]\<close> (and any array, string, number
  or boolean at top level) cannot be decoded into the struct: \<^verbatim>\<open>json.Unmarshal\<close> returns an
  \<^verbatim>\<open>UnmarshalTypeError\<close>, and geocodeAddress returns at line 84.
\<close>

theorem geocodeAddress_body_array_fails_decoding:
  "geocodeAddress_body
     (\<lambda>err. ''json: cannot unmarshal array into Go value of type main.GeocodeResponse'')
     (JArray []) ''qqq'' ''tok''
   = Some (Failed (errorString (parse_json_msg @
       ''json: cannot unmarshal array into Go value of type main.GeocodeResponse'')))
   \<and> Unmarshal_GeocodeResponse (JString ''unauthorized'')
       = Fails (UnmarshalTypeError ''string'' ''main.GeocodeResponse'')"
  by (simp add: geocodeAddress_body_def geocodeAddress_def Errorf_v_def
      Unmarshal_GeocodeResponse_def dec_struct_def maxNestingDepth_def)

text \<open>
  So does an error object that holds a value nested too deep, although the decoder would
  skip the member: the text is rejected before anything is decoded.
\<close>

lemma nesting_nested_arrays: "nesting (nested_arrays n) = n"
  by (induction n) simp_all

lemma Unmarshal_too_deep:
  "Unmarshal_GeocodeResponse (JObject [(''message'', nested_arrays 10000)])
     = Fails (SyntaxError ''exceeded max depth'')"
  by (simp add: Unmarshal_GeocodeResponse_def nesting_nested_arrays maxNestingDepth_def)

lemma geocodeAddress_body_Fails:
  "Unmarshal_GeocodeResponse body = Fails err \<Longrightarrow>
     geocodeAddress_body Error_text body address accessToken
       = Some (Failed (errorString (parse_json_msg @ Error_text err)))"
  by (simp add: geocodeAddress_body_def geocodeAddress_def Errorf_v_def)

lemma Unmarshal_other_shape:
  "neither_object_nor_null body \<or> maxNestingDepth < nesting body \<Longrightarrow>
     \<exists>err. Unmarshal_GeocodeResponse body = Fails err"
  by (cases body)
     (auto simp: Unmarshal_GeocodeResponse_def dec_struct_def neither_object_nor_null_def)

lemma dec_members_no_features:
  "no_features_member members \<Longrightarrow>
     \<exists>ty. dec_members GeocodeResponse_field \<lparr>Type = t, Features = []\<rparr> members
            = Decodes \<lparr>Type = ty, Features = []\<rparr>"
proof (induction members arbitrary: t)
  case Nil
  then show ?case by simp
next
  case (Cons m members)
  obtain k v where m: "m = (k, v)" by (cases m)
  from Cons.prems m have rest: "no_features_member members"
    and nf: "\<not> names_field k ''features''"
    and ty: "names_field k ''type'' \<Longrightarrow> v = JNull \<or> (\<exists>s. v = JString s)"
    by (auto simp: no_features_member_def split: json.splits)
  have "\<exists>t'. GeocodeResponse_field \<lparr>Type = t, Features = []\<rparr> k v
               = Decodes \<lparr>Type = t', Features = []\<rparr>"
  proof (cases "names_field k ''type''")
    case True
    with ty show ?thesis
      by (auto simp: GeocodeResponse_field_def dec_string_def)
  next
    case False
    with nf show ?thesis by (simp add: GeocodeResponse_field_def)
  qed
  then obtain t' where
    "GeocodeResponse_field \<lparr>Type = t, Features = []\<rparr> k v = Decodes \<lparr>Type = t', Features = []\<rparr>"
    by blast
  with Cons.IH [OF rest, of t'] m show ?case by simp
qed

text \<open>
  C10, amended. For every body that is a JSON object with no member naming the feature list
  (and whose \<^verbatim>\<open>type\<close> member, if it has one, is a string or \<^verbatim>\<open>null\<close>) and that is nested no deeper
  than 10000 levels, such as the provider's error object \<^verbatim>\<open>{"message": "unauthorized"}\<close>, and
  for the body \<^verbatim>\<open>null\<close>: decoding succeeds with an empty feature list, and geocodeAddress fails
  with the "address not found" error, not with the JSON parsing error, exactly as it does
  on a genuine response with no results, \<^verbatim>\<open>{"features": []}\<close>. Every body that is an array, a
  string, a number or a boolean at top level, and every body nested deeper than 10000
  levels, fails decoding, and geocodeAddress fails with the JSON parsing error.
\<close>

theorem geocodeAddress_body_without_features:
  assumes "no_features_member members"
    and "nesting (JObject members) \<le> maxNestingDepth"
  shows "(\<exists>ty. Unmarshal_GeocodeResponse (JObject members) = Decodes \<lparr>Type = ty, Features = []\<rparr>)
     \<and> geocodeAddress_body Error_text (JObject members) address accessToken
         = Some (Failed (errorString address_not_found_msg))
     \<and> geocodeAddress_body Error_text JNull address accessToken
         = Some (Failed (errorString address_not_found_msg))
     \<and> geocodeAddress_body Error_text (JObject [(''features'', JArray [])]) address accessToken
         = Some (Failed (errorString address_not_found_msg))
     \<and> (\<forall>body. neither_object_nor_null body \<or> maxNestingDepth < nesting body \<longrightarrow>
           (\<exists>err. Unmarshal_GeocodeResponse body = Fails err
              \<and> geocodeAddress_body Error_text body address accessToken
                  = Some (Failed (errorString (parse_json_msg @ Error_text err)))))"
proof -
  have "Unmarshal_GeocodeResponse (JObject members)
          = dec_members GeocodeResponse_field \<lparr>Type = [], Features = []\<rparr> members"
    using assms(2) by (auto simp: Unmarshal_GeocodeResponse_def dec_struct_def)
  with dec_members_no_features [OF assms(1), of "[]"] obtain ty where
    d: "Unmarshal_GeocodeResponse (JObject members) = Decodes \<lparr>Type = ty, Features = []\<rparr>"
    by auto
  have 1: "geocodeAddress_body Error_text (JObject members) address accessToken
         = Some (Failed (errorString address_not_found_msg))"
    by (simp add: geocodeAddress_body_def d geocodeAddress_def locate_def)
  have 2: "geocodeAddress_body Error_text JNull address accessToken
         = Some (Failed (errorString address_not_found_msg))"
    by (simp add: geocodeAddress_body_def Unmarshal_GeocodeResponse_def dec_struct_def
        geocodeAddress_def locate_def)
  have 3: "geocodeAddress_body Error_text (JObject [(''features'', JArray [])]) address accessToken
         = Some (Failed (errorString address_not_found_msg))"
    by (simp add: geocodeAddress_body_def decode_defs geocodeAddress_def locate_def)
  have 4: "\<forall>body. neither_object_nor_null body \<or> maxNestingDepth < nesting body \<longrightarrow>
           (\<exists>err. Unmarshal_GeocodeResponse body = Fails err
              \<and> geocodeAddress_body Error_text body address accessToken
                  = Some (Failed (errorString (parse_json_msg @ Error_text err))))"
    using Unmarshal_other_shape geocodeAddress_body_Fails by blast
  from d 1 2 3 4 show ?thesis by blast
qed

theorem geocodeAddress_body_without_features_witness:
  "Unmarshal_GeocodeResponse (JObject [(''message'', JString ''unauthorized'')])
     = Decodes \<lparr>Type = [], Features = []\<rparr>
   \<and> geocodeAddress_body (\<lambda>err. ''json: cannot unmarshal'')
       (JObject [(''message'', JString ''unauthorized'')]) ''qqq'' ''tok''
     = Some (Failed (errorString address_not_found_msg))
   \<and> geocodeAddress_body (\<lambda>err. ''json: cannot unmarshal'') (JBool True) ''qqq'' ''tok''
     = Some (Failed (errorString (parse_json_msg @ ''json: cannot unmarshal'')))"
proof -
  have h: "no_features_member [(''message'', JString ''unauthorized'')]"
    by (simp add: no_features_member_def names_field_def upper_ascii_def)
  have n: "nesting (JObject [(''message'', JString ''unauthorized'')]) \<le> maxNestingDepth"
    by (simp add: maxNestingDepth_def)
  have u: "Unmarshal_GeocodeResponse (JObject [(''message'', JString ''unauthorized'')])
     = Decodes \<lparr>Type = [], Features = []\<rparr>"
    by (simp add: decode_defs)
  have b: "neither_object_nor_null (JBool True)"
    by (simp add: neither_object_nor_null_def)
  from geocodeAddress_body_without_features
         [OF h n, of "\<lambda>err. ''json: cannot unmarshal''" "''qqq''" "''tok''"] u b
  show ?thesis by auto
qed

end
